theory Spec2Isabelle
  imports Complex_Main "HOL-Library.Sublist"
begin

section \<open>The live translation session of \<open>src/components/LiveTranslator.tsx\<close>\<close>

text \<open>
  The component keeps its state in three \<open>useState\<close> cells and seven \<open>useRef\<close> cells and
  reacts to callbacks on one event loop. Each callback is a function on the record
  \<open>component\<close>; every call into the platform (Web Audio, media devices, the remote session)
  is appended to the field \<open>effects\<close>, in call order. An \<open>await\<close> splits a handler in
  two functions: the part before the suspension returns the continuation's captured
  values, the part after it takes them back, so other callbacks can run in between.
  The button always carries the \<open>toggleSession\<close> of the latest render, which reads the
  current \<open>isActive\<close>; the session callbacks keep the \<open>isActive\<close> of the render that
  created them. The helpers of \<open>utils/audioUtils\<close> (\<open>decodeAudio\<close>, \<open>decodeAudioData\<close>,
  \<open>createPcmBlob\<close>) are parameters of the functions that call them.
\<close>

subsection \<open>Platform objects\<close>

type_synonym handle = nat
  \<comment> \<open>identity of a platform object: AudioContext, MediaStream, ScriptProcessorNode,
      AudioBufferSourceNode, the session promise\<close>

datatype exn = Exn string
  \<comment> \<open>a thrown \<open>Error\<close> (or a rejection), with its \<open>message\<close>\<close>

record AudioBuffer =
  buf_length :: nat
  buf_sampleRate :: nat

definition duration :: "AudioBuffer \<Rightarrow> real" where
  \<comment> \<open>Web Audio: \<open>AudioBuffer.duration\<close> is \<open>length / sampleRate\<close>, in seconds\<close>
  "duration b = real (buf_length b) / real (buf_sampleRate b)"

text \<open>The inbound message, with the optional fields that line 108 walks through.\<close>

record Blob =
  data :: "string option"
  mimeType :: "string option"

record Part =
  inlineData :: "Blob option"

record Content =
  parts :: "Part list option"

record LiveServerContent =
  modelTurn :: "Content option"

record LiveServerMessage =
  serverContent :: "LiveServerContent option"

datatype effect =
    NewAudioContext handle nat
  | GetUserMedia
  | LiveConnect handle
  | CreateScriptProcessor handle handle nat
  | ProcessorDisconnect handle
  | TrackStop handle
  | ContextClose handle
  | SendRealtimeInput handle Blob
  | SourceStart handle handle AudioBuffer real
  | ConsoleError

subsection \<open>The component's state\<close>

record component =
  isActive :: bool
  status :: string
  error :: "string option"
  inputContextRef :: "handle option"
  outputContextRef :: "handle option"
  nextStartTimeRef :: real
  sourcesRef :: "handle set"
  sessionPromiseRef :: "handle option"
  streamRef :: "handle option"
  scriptProcessorRef :: "handle option"
  currentTime :: real
    \<comment> \<open>\<open>currentTime\<close> of the AudioContext held in \<open>outputContextRef\<close>\<close>
  thens :: "(handle \<times> Blob) list"
    \<comment> \<open>reactions registered by \<open>sessionPromise.then\<close> that have not run yet\<close>
  nodes :: nat
    \<comment> \<open>number of AudioBufferSourceNodes created so far; the next node's identity\<close>
  effects :: "effect list"

definition initial :: component where
  \<comment> \<open>lines 12-23: the \<open>useState\<close> and \<open>useRef\<close> initial values\<close>
  "initial = \<lparr> isActive = False, status = ''Ready to connect'', error = None,
     inputContextRef = None, outputContextRef = None, nextStartTimeRef = 0,
     sourcesRef = {}, sessionPromiseRef = None, streamRef = None,
     scriptProcessorRef = None, currentTime = 0, thens = [], nodes = 0, effects = [] \<rparr>"

definition emit :: "effect \<Rightarrow> component \<Rightarrow> component" where
  "emit e s = s\<lparr>effects := effects s @ [e]\<rparr>"

definition advanceTime :: "real \<Rightarrow> component \<Rightarrow> component" where
  \<comment> \<open>the output device plays for \<open>dt\<close> seconds\<close>
  "advanceTime dt s = s\<lparr>currentTime := currentTime s + dt\<rparr>"

subsection \<open>cleanup (lines 25-44)\<close>

text \<open>
  A platform call may throw; \<open>thr\<close> says which calls do, and with what. The code has no
  \<open>try\<close> inside \<open>cleanup\<close>, so the first throw ends it: the result is the state reached
  and the exception.
\<close>

type_synonym thrower = "effect \<Rightarrow> exn option"

definition andThen ::
  "component \<times> exn option \<Rightarrow> (component \<Rightarrow> component \<times> exn option) \<Rightarrow> component \<times> exn option" where
  "andThen r f = (case r of (s, None) \<Rightarrow> f s | (s, Some x) \<Rightarrow> (s, Some x))"

definition call :: "thrower \<Rightarrow> effect \<Rightarrow> component \<Rightarrow> component \<times> exn option" where
  "call thr e s = (case thr e of Some x \<Rightarrow> (s, Some x) | None \<Rightarrow> (emit e s, None))"

definition cleanup :: "thrower \<Rightarrow> component \<Rightarrow> component \<times> exn option" where
  "cleanup thr s =
     andThen (case scriptProcessorRef s of
                None \<Rightarrow> (s, None)
              | Some p \<Rightarrow> andThen (call thr (ProcessorDisconnect p) s)
                           (\<lambda>s. (s\<lparr>scriptProcessorRef := None\<rparr>, None)))
    (\<lambda>s. andThen (case streamRef s of
                None \<Rightarrow> (s, None)
              | Some m \<Rightarrow> andThen (call thr (TrackStop m) s)
                           (\<lambda>s. (s\<lparr>streamRef := None\<rparr>, None)))
    (\<lambda>s. andThen (case inputContextRef s of
                None \<Rightarrow> (s, None)
              | Some c \<Rightarrow> andThen (call thr (ContextClose c) s)
                           (\<lambda>s. (s\<lparr>inputContextRef := None\<rparr>, None)))
    (\<lambda>s. andThen (case outputContextRef s of
                None \<Rightarrow> (s, None)
              | Some c \<Rightarrow> andThen (call thr (ContextClose c) s)
                           (\<lambda>s. (s\<lparr>outputContextRef := None\<rparr>, None)))
    (\<lambda>s. (s\<lparr>sessionPromiseRef := None\<rparr>, None)))))"

definition noThrow :: thrower where
  "noThrow e = None"

subsection \<open>toggleSession (lines 50-173)\<close>

record environment =
  apiKey :: "string option"
    \<comment> \<open>\<open>process.env.API_KEY\<close>\<close>
  newInputCtx :: "exn + handle"
    \<comment> \<open>what \<open>new AudioContext({ sampleRate: 16000 })\<close> does: throws, or the new object\<close>
  newOutputCtx :: "exn + handle"
    \<comment> \<open>what \<open>new AudioContext({ sampleRate: 24000 })\<close> does\<close>

record closure =
  c_isActive :: bool
    \<comment> \<open>\<open>isActive\<close> of the render whose \<open>toggleSession\<close> ran: the callbacks see this value\<close>
  c_inputCtx :: handle
  c_outputCtx :: handle
    \<comment> \<open>the context of \<open>outputNode\<close>\<close>
  c_stream :: handle
  c_sessionPromise :: handle

datatype completion =
    Returned
  | Threw exn
  | AwaitUserMedia bool handle handle
    \<comment> \<open>suspended at line 79, holding \<open>isActive\<close>, \<open>inputCtx\<close> and \<open>outputCtx\<close>\<close>
  | Connected closure
    \<comment> \<open>line 165 reached: the callbacks of lines 87-147 exist, closed over these values\<close>

definition finish :: "component \<times> exn option \<Rightarrow> component \<times> completion" where
  "finish r = (case r of (s, None) \<Rightarrow> (s, Returned) | (s, Some x) \<Rightarrow> (s, Threw x))"

definition message :: "exn \<Rightarrow> string" where
  \<comment> \<open>\<open>err.message || "Failed to start live session"\<close>\<close>
  "message x = (case x of Exn m \<Rightarrow> if m = [] then ''Failed to start live session'' else m)"

definition catch_start :: "thrower \<Rightarrow> exn \<Rightarrow> component \<Rightarrow> component \<times> completion" where
  \<comment> \<open>lines 167-172\<close>
  "catch_start thr x s =
     finish (cleanup thr ((emit ConsoleError s)\<lparr>error := Some (message x), isActive := False\<rparr>))"

definition truthy :: "string option \<Rightarrow> bool" where
  \<comment> \<open>JavaScript truthiness of a string that may be undefined: the empty string is falsy\<close>
  "truthy v = (case v of None \<Rightarrow> False | Some t \<Rightarrow> t \<noteq> [])"

definition toggleSession :: "thrower \<Rightarrow> environment \<Rightarrow> component \<Rightarrow> component \<times> completion" where
  \<comment> \<open>lines 50-79, up to the \<open>await\<close> of \<open>getUserMedia\<close>; the clock of a new
      AudioContext starts at 0\<close>
  "toggleSession thr env s =
     (if isActive s then
        finish (cleanup thr (s\<lparr>isActive := False, status := ''Disconnected''\<rparr>))
      else
        let s1 = s\<lparr>isActive := True, status := ''Connecting...'', error := None\<rparr> in
        if \<not> truthy (apiKey env) then catch_start thr (Exn ''API Key missing'') s1
        else case newInputCtx env of
          Inl x \<Rightarrow> catch_start thr x s1
        | Inr ic \<Rightarrow>
           (let s2 = emit (NewAudioContext ic 16000) s1 in
            case newOutputCtx env of
              Inl x \<Rightarrow> catch_start thr x s2
            | Inr oc \<Rightarrow>
               (let s3 = (emit (NewAudioContext oc 24000) s2)
                           \<lparr>inputContextRef := Some ic, outputContextRef := Some oc,
                            currentTime := 0\<rparr>;
                    s4 = s3\<lparr>nextStartTimeRef := 0\<rparr>
                in (emit GetUserMedia s4, AwaitUserMedia (isActive s) ic oc))))"

definition toggleSession_resume ::
  "thrower \<Rightarrow> bool \<Rightarrow> handle \<Rightarrow> handle \<Rightarrow> exn + handle \<Rightarrow> handle \<Rightarrow> component
     \<Rightarrow> component \<times> completion" where
  \<comment> \<open>lines 79-165: \<open>getUserMedia\<close> settled with \<open>um\<close>; \<open>ai.live.connect\<close> returns the promise \<open>p\<close>\<close>
  "toggleSession_resume thr act ic oc um p s =
     (case um of
        Inl x \<Rightarrow> catch_start thr x s
      | Inr m \<Rightarrow>
          ((emit (LiveConnect p) (s\<lparr>streamRef := Some m\<rparr>))\<lparr>sessionPromiseRef := Some p\<rparr>,
           Connected \<lparr>c_isActive = act, c_inputCtx = ic, c_outputCtx = oc,
                      c_stream = m, c_sessionPromise = p\<rparr>))"

subsection \<open>The session callbacks (lines 87-147)\<close>

definition onopen :: "closure \<Rightarrow> handle \<Rightarrow> component \<Rightarrow> component" where
  \<comment> \<open>lines 87-106; \<open>proc\<close> is the node that \<open>createScriptProcessor(4096, 1, 1)\<close> returns\<close>
  "onopen clo proc s =
     (emit (CreateScriptProcessor (c_inputCtx clo) proc 4096)
        (s\<lparr>status := ''Connected - Speak now''\<rparr>))\<lparr>scriptProcessorRef := Some proc\<rparr>"

definition onaudioprocess :: "(real list \<Rightarrow> Blob) \<Rightarrow> closure \<Rightarrow> real list \<Rightarrow> component \<Rightarrow> component" where
  \<comment> \<open>lines 95-102: \<open>createPcmBlob\<close> (of \<open>utils/audioUtils\<close>) is a parameter; the send is
      a reaction on the captured \<open>sessionPromise\<close>\<close>
  "onaudioprocess createPcmBlob clo inputData s =
     s\<lparr>thens := thens s @ [(c_sessionPromise clo, createPcmBlob inputData)]\<rparr>"

definition session_then :: "handle \<Rightarrow> component \<Rightarrow> component" where
  \<comment> \<open>lines 99-101: the promise \<open>p\<close> is fulfilled, its pending reactions run in the order
      they were registered\<close>
  "session_then p s =
     s\<lparr>thens := filter (\<lambda>r. fst r \<noteq> p) (thens s),
       effects := effects s @ map (\<lambda>r. SendRealtimeInput p (snd r)) (filter (\<lambda>r. fst r = p) (thens s))\<rparr>"

definition audioData :: "LiveServerMessage \<Rightarrow> string option" where
  \<comment> \<open>line 108: \<open>message.serverContent?.modelTurn?.parts?.[0]?.inlineData?.data\<close>\<close>
  "audioData msg =
     (case serverContent msg of None \<Rightarrow> None | Some sc \<Rightarrow>
       (case modelTurn sc of None \<Rightarrow> None | Some mt \<Rightarrow>
         (case parts mt of None \<Rightarrow> None | Some ps \<Rightarrow>
           (case ps of [] \<Rightarrow> None | part # _ \<Rightarrow>
             (case inlineData part of None \<Rightarrow> None | Some b \<Rightarrow> data b)))))"

definition onmessage :: "closure \<Rightarrow> LiveServerMessage \<Rightarrow> component \<Rightarrow> component \<times> (handle \<times> string) option" where
  \<comment> \<open>lines 107-117, up to the \<open>await\<close>: \<open>None\<close> when the handler has returned, otherwise
      the \<open>ctx\<close> and \<open>audioData\<close> the suspended handler holds\<close>
  "onmessage clo msg s =
     (case audioData msg of
        None \<Rightarrow> (s, None)
      | Some d \<Rightarrow>
          if d = [] then (s, None)
          else
            (case outputContextRef s of
               None \<Rightarrow> (s, None)
             | Some ctx \<Rightarrow>
                 (s\<lparr>nextStartTimeRef := max (nextStartTimeRef s) (currentTime s)\<rparr>,
                  Some (ctx, d))))"

definition onmessage_resume ::
  "(string \<Rightarrow> exn + AudioBuffer) \<Rightarrow> closure \<Rightarrow> handle \<times> string \<Rightarrow> component \<Rightarrow> component \<times> exn option" where
  \<comment> \<open>lines 117-134: \<open>decodeAudioData(decodeAudio(audioData), ctx, 24000, 1)\<close> (of
      \<open>utils/audioUtils\<close>) is the parameter \<open>decode\<close>. \<open>source.connect(outputNode)\<close> throws
      InvalidAccessError when the two nodes belong to different contexts.\<close>
  "onmessage_resume decode clo k s =
     (case decode (snd k) of
        Inl x \<Rightarrow> (s, Some x)
      | Inr audioBuffer \<Rightarrow>
          (let source = nodes s; s1 = s\<lparr>nodes := Suc (nodes s)\<rparr> in
           if fst k \<noteq> c_outputCtx clo then (s1, Some (Exn ''InvalidAccessError''))
           else
             let s2 = emit (SourceStart (fst k) source audioBuffer (nextStartTimeRef s1)) s1;
                 s3 = s2\<lparr>nextStartTimeRef := nextStartTimeRef s2 + duration audioBuffer\<rparr>
             in (s3\<lparr>sourcesRef := insert source (sourcesRef s3)\<rparr>, None)))"

definition source_ended :: "handle \<Rightarrow> component \<Rightarrow> component" where
  \<comment> \<open>lines 128-130\<close>
  "source_ended source s = s\<lparr>sourcesRef := sourcesRef s - {source}\<rparr>"

definition onclose :: "closure \<Rightarrow> component \<Rightarrow> component" where
  \<comment> \<open>lines 137-142\<close>
  "onclose clo s =
     (if c_isActive clo then s\<lparr>status := ''Connection Closed'', isActive := False\<rparr> else s)"

definition onerror :: "closure \<Rightarrow> component \<Rightarrow> component" where
  \<comment> \<open>lines 143-147\<close>
  "onerror clo s =
     (emit ConsoleError s)\<lparr>error := Some ''Connection error occurred'', isActive := False\<rparr>"

subsection \<open>The event loop of one session\<close>

text \<open>
  Between two toggles the component only reacts to the session's callbacks, to the
  completion of a decode and to the passing of device time. A suspended \<open>onmessage\<close> waits
  in the list of pending decodes until the event \<open>Decoded i\<close> resumes the \<open>i\<close>-th of them;
  a rejection of the handler's promise is caught by nobody, so the loop goes on from the
  state the handler left. \<open>Tick dt\<close> is the device playing for \<open>dt\<close> seconds.
\<close>

datatype event =
    Message LiveServerMessage
  | Decoded nat
  | Tick real
  | Ended handle
  | AudioProcess "real list"
  | SessionThen
  | Close
  | Error

fun step ::
  "(string \<Rightarrow> exn + AudioBuffer) \<Rightarrow> (real list \<Rightarrow> Blob) \<Rightarrow> closure \<Rightarrow> event
     \<Rightarrow> component \<times> (handle \<times> string) list \<Rightarrow> component \<times> (handle \<times> string) list" where
  "step decode enc clo (Message m) (s, ps) =
     (case onmessage clo m s of (s', None) \<Rightarrow> (s', ps) | (s', Some k) \<Rightarrow> (s', ps @ [k]))"
| "step decode enc clo (Decoded i) (s, ps) =
     (if i < length ps
      then (fst (onmessage_resume decode clo (ps ! i) s), take i ps @ drop (Suc i) ps)
      else (s, ps))"
| "step decode enc clo (Tick dt) (s, ps) = (advanceTime dt s, ps)"
| "step decode enc clo (Ended n) (s, ps) = (source_ended n s, ps)"
| "step decode enc clo (AudioProcess f) (s, ps) = (onaudioprocess enc clo f s, ps)"
| "step decode enc clo SessionThen (s, ps) = (session_then (c_sessionPromise clo) s, ps)"
| "step decode enc clo Close (s, ps) = (onclose clo s, ps)"
| "step decode enc clo Error (s, ps) = (onerror clo s, ps)"

fun run ::
  "(string \<Rightarrow> exn + AudioBuffer) \<Rightarrow> (real list \<Rightarrow> Blob) \<Rightarrow> closure \<Rightarrow> event list
     \<Rightarrow> component \<times> (handle \<times> string) list \<Rightarrow> component \<times> (handle \<times> string) list" where
  "run decode enc clo [] c = c"
| "run decode enc clo (e # es) c = run decode enc clo es (step decode enc clo e c)"

subsection \<open>Reading the effects\<close>

fun scheduled :: "effect list \<Rightarrow> (real \<times> real) list" where
  \<comment> \<open>the \<open>when\<close> argument of every \<open>source.start\<close> and its buffer's duration, in call order\<close>
  "scheduled [] = []"
| "scheduled (SourceStart c n b t # es) = (t, duration b) # scheduled es"
| "scheduled (e # es) = scheduled es"

fun chained :: "real \<Rightarrow> (real \<times> real) list \<Rightarrow> bool" where
  \<comment> \<open>of the requested times only: no \<open>when\<close> lies before \<open>c\<close>, nor before the \<open>when\<close> of
      the request before it plus that buffer's duration. It says nothing of the device,
      which starts a source at once when its \<open>when\<close> is already past (see \<open>playback\<close>).\<close>
  "chained c [] = True"
| "chained c ((t, d) # xs) = (c \<le> t \<and> chained (t + d) xs)"

fun sent :: "handle \<Rightarrow> effect list \<Rightarrow> Blob list" where
  \<comment> \<open>the payloads handed to \<open>sendRealtimeInput\<close> of the session of promise \<open>p\<close>, in call order\<close>
  "sent p [] = []"
| "sent p (SendRealtimeInput q b # es) = (if q = p then b # sent p es else sent p es)"
| "sent p (e # es) = sent p es"

fun released :: "effect \<Rightarrow> bool" where
  \<comment> \<open>the calls that give a resource back\<close>
  "released (ProcessorDisconnect p) = True"
| "released (TrackStop m) = True"
| "released (ContextClose c) = True"
| "released e = False"


definition held :: "component \<Rightarrow> effect list" where
  \<comment> \<open>the release calls owed for the handles the component holds, in the order of lines 26-41\<close>
  "held s =
     (case scriptProcessorRef s of None \<Rightarrow> [] | Some p \<Rightarrow> [ProcessorDisconnect p])
     @ (case streamRef s of None \<Rightarrow> [] | Some m \<Rightarrow> [TrackStop m])
     @ (case inputContextRef s of None \<Rightarrow> [] | Some c \<Rightarrow> [ContextClose c])
     @ (case outputContextRef s of None \<Rightarrow> [] | Some c \<Rightarrow> [ContextClose c])"

fun frames :: "event list \<Rightarrow> real list list" where
  \<comment> \<open>the frames the capture node delivered, in capture order\<close>
  "frames [] = []"
| "frames (AudioProcess f # es) = f # frames es"
| "frames (e # es) = frames es"




definition outbound :: "handle \<Rightarrow> component \<Rightarrow> Blob list" where
  \<comment> \<open>what the session of promise \<open>p\<close> was sent, followed by what waits in reactions on \<open>p\<close>\<close>
  "outbound p s = sent p (effects s) @ map snd (filter (\<lambda>r. fst r = p) (thens s))"

definition endOf :: "real \<Rightarrow> (real \<times> real) list \<Rightarrow> real" where
  \<comment> \<open>the last request's \<open>when\<close> plus its duration; \<open>c\<close> when nothing was requested\<close>
  "endOf c xs = (if xs = [] then c else fst (last xs) + snd (last xs))"

fun playback ::
  "(string \<Rightarrow> exn + AudioBuffer) \<Rightarrow> (real list \<Rightarrow> Blob) \<Rightarrow> closure \<Rightarrow> event list
     \<Rightarrow> component \<times> (handle \<times> string) list \<Rightarrow> (real \<times> real) list" where
  \<comment> \<open>when the device begins to play each buffer started during the events, and for how
      long. Web Audio: \<open>start(when)\<close> called with \<open>when\<close> below \<open>currentTime\<close> plays at once.\<close>
  "playback decode enc clo [] c = []"
| "playback decode enc clo (e # es) c =
     map (\<lambda>r. (max (fst r) (currentTime (fst c)), snd r))
       (scheduled (drop (length (effects (fst c))) (effects (fst (step decode enc clo e c)))))
     @ playback decode enc clo es (step decode enc clo e c)"

subsection \<open>A concrete session\<close>

definition env0 :: environment where
  "env0 = \<lparr> apiKey = Some ''key'', newInputCtx = Inr 1, newOutputCtx = Inr 2 \<rparr>"

definition clo0 :: closure where
  "clo0 = \<lparr> c_isActive = False, c_inputCtx = 1, c_outputCtx = 2, c_stream = 3,
            c_sessionPromise = 4 \<rparr>"

definition connecting0 :: component where
  \<comment> \<open>the user pressed start\<close>
  "connecting0 = fst (toggleSession noThrow env0 initial)"

definition connected0 :: component where
  \<comment> \<open>the microphone was granted (stream 3) and \<open>connect\<close> returned promise 4\<close>
  "connected0 = fst (toggleSession_resume noThrow False 1 2 (Inr 3) 4 connecting0)"

definition active0 :: component where
  \<comment> \<open>the remote reported \<open>opened\<close>; the capture node is 5\<close>
  "active0 = onopen clo0 5 connected0"

definition audioMessage :: "string \<Rightarrow> LiveServerMessage" where
  "audioMessage d = \<lparr> serverContent = Some \<lparr> modelTurn = Some \<lparr> parts = Some
     [\<lparr> inlineData = Some \<lparr> data = Some d, mimeType = Some ''audio/pcm;rate=24000'' \<rparr> \<rparr>] \<rparr> \<rparr> \<rparr>"

definition decode0 :: "string \<Rightarrow> exn + AudioBuffer" where
  \<comment> \<open>a decoder for the examples: two payloads it accepts, of 0.5 s and 0.3 s at 24 kHz\<close>
  "decode0 d =
     (if d = ''A'' then Inr \<lparr> buf_length = 12000, buf_sampleRate = 24000 \<rparr>
      else if d = ''B'' then Inr \<lparr> buf_length = 7200, buf_sampleRate = 24000 \<rparr>
      else Inl (Exn ''corrupt''))"

definition enc0 :: "real list \<Rightarrow> Blob" where
  \<comment> \<open>an encoder for the examples: one payload character for each sample\<close>
  "enc0 f = \<lparr> data = Some (map (\<lambda>x. if x < 0 then CHR ''-'' else CHR ''+'') f),
             mimeType = Some ''audio/pcm;rate=16000'' \<rparr>"

definition env1 :: environment where
  "env1 = \<lparr> apiKey = Some ''key'', newInputCtx = Inr 6, newOutputCtx = Inr 7 \<rparr>"

definition frame0 :: "real list" where
  "frame0 = replicate 4096 0"

definition stopped0 :: component where
  \<comment> \<open>the user pressed stop during the active session\<close>
  "stopped0 = fst (toggleSession noThrow env1 active0)"

definition lateFrame0 :: component where
  \<comment> \<open>a capture callback that was queued before the stop runs after it\<close>
  "lateFrame0 = session_then 4 (onaudioprocess enc0 clo0 frame0 stopped0)"

definition suspended0 :: "component \<times> (handle \<times> string) option" where
  \<comment> \<open>a chunk arrived during the active session and its handler waits for the decode\<close>
  "suspended0 = onmessage clo0 (audioMessage ''A'') active0"

definition lateChunk0 :: component where
  \<comment> \<open>the user pressed stop while the handler waited; then the decode completed\<close>
  "lateChunk0 =
     fst (onmessage_resume decode0 clo0 (the (snd suspended0))
            (fst (toggleSession noThrow env1 (fst suspended0))))"

definition played0 :: component where
  \<comment> \<open>one chunk of 0.5 s was scheduled in the active session\<close>
  "played0 = fst (run decode0 enc0 clo0 [Message (audioMessage ''A''), Decoded 0] (active0, []))"

definition restarting0 :: component where
  \<comment> \<open>stop, then start again\<close>
  "restarting0 = fst (toggleSession noThrow env1 (fst (toggleSession noThrow env1 played0)))"

definition beforeSchedule0 :: component where
  \<comment> \<open>a chunk arrived at device time 0 and the device played for 1 s while it was decoded\<close>
  "beforeSchedule0 =
     fst (run decode0 enc0 clo0 [Message (audioMessage ''A''), Tick 1] (active0, []))"

definition afterSchedule0 :: component where
  "afterSchedule0 =
     fst (run decode0 enc0 clo0 [Message (audioMessage ''A''), Tick 1, Decoded 0] (active0, []))"

definition errored0 :: component where
  \<comment> \<open>the transport reported an error during the active session\<close>
  "errored0 = onerror clo0 active0"

definition second0 :: component where
  \<comment> \<open>after that error the user pressed start: new contexts 6 and 7, stream 8, promise 9\<close>
  "second0 =
     fst (toggleSession_resume noThrow False 6 7 (Inr 8) 9
            (fst (toggleSession noThrow env1 errored0)))"

definition throwDisconnect :: thrower where
  \<comment> \<open>a platform where \<open>disconnect()\<close> of node 5 throws\<close>
  "throwDisconnect e = (if e = ProcessorDisconnect 5 then Some (Exn ''disconnect failed'') else None)"

section \<open>Properties\<close>

subsection \<open>Evaluating the concrete session\<close>

lemmas session0_defs = env0_def clo0_def connecting0_def connected0_def active0_def initial_def
  toggleSession_def toggleSession_resume_def onopen_def emit_def truthy_def noThrow_def

lemma connecting0_eq:
  "toggleSession noThrow env0 initial =
     (\<lparr> isActive = True, status = ''Connecting...'', error = None,
        inputContextRef = Some 1, outputContextRef = Some 2, nextStartTimeRef = 0,
        sourcesRef = {}, sessionPromiseRef = None, streamRef = None,
        scriptProcessorRef = None, currentTime = 0, thens = [], nodes = 0,
        effects = [NewAudioContext 1 16000, NewAudioContext 2 24000, GetUserMedia] \<rparr>,
      AwaitUserMedia False 1 2)"
  by (simp add: session0_defs)

lemma connected0_eq:
  "toggleSession_resume noThrow False 1 2 (Inr 3) 4 connecting0 =
     (\<lparr> isActive = True, status = ''Connecting...'', error = None,
        inputContextRef = Some 1, outputContextRef = Some 2, nextStartTimeRef = 0,
        sourcesRef = {}, sessionPromiseRef = Some 4, streamRef = Some 3,
        scriptProcessorRef = None, currentTime = 0, thens = [], nodes = 0,
        effects = [NewAudioContext 1 16000, NewAudioContext 2 24000, GetUserMedia,
          LiveConnect 4] \<rparr>,
      Connected clo0)"
  by (simp add: connecting0_def connecting0_eq toggleSession_resume_def emit_def clo0_def)

lemma active0_eq:
  "active0 = \<lparr> isActive = True, status = ''Connected - Speak now'', error = None,
     inputContextRef = Some 1, outputContextRef = Some 2, nextStartTimeRef = 0,
     sourcesRef = {}, sessionPromiseRef = Some 4, streamRef = Some 3,
     scriptProcessorRef = Some 5, currentTime = 0, thens = [], nodes = 0,
     effects = [NewAudioContext 1 16000, NewAudioContext 2 24000, GetUserMedia,
       LiveConnect 4, CreateScriptProcessor 1 5 4096] \<rparr>"
  by (simp add: session0_defs)

lemma stop_active0:
  "toggleSession noThrow env1 active0 =
   (\<lparr> isActive = False, status = ''Disconnected'', error = None,
     inputContextRef = None, outputContextRef = None, nextStartTimeRef = 0,
     sourcesRef = {}, sessionPromiseRef = None, streamRef = None,
     scriptProcessorRef = None, currentTime = 0, thens = [], nodes = 0,
     effects = [NewAudioContext 1 16000, NewAudioContext 2 24000, GetUserMedia,
       LiveConnect 4, CreateScriptProcessor 1 5 4096,
       ProcessorDisconnect 5, TrackStop 3, ContextClose 1, ContextClose 2] \<rparr>, Returned)"
  by (simp add: active0_eq toggleSession_def cleanup_def andThen_def call_def
        noThrow_def emit_def finish_def)

lemma audioData_audioMessage: "audioData (audioMessage d) = Some d"
  by (simp add: audioData_def audioMessage_def)

lemma decode0_A: "decode0 ''A'' = Inr \<lparr>buf_length = 12000, buf_sampleRate = 24000\<rparr>"
  by (simp add: decode0_def)


lemma duration_A: "duration \<lparr>buf_length = 12000, buf_sampleRate = 24000\<rparr> = 1 / 2"
  by (simp add: duration_def)


subsection \<open>The message handler, step by step\<close>

lemma duration_nonneg: "0 \<le> duration b"
  by (simp add: duration_def)


lemma onmessage_resume_cases:
  "onmessage_resume decode clo k s =
     (case decode (snd k) of
        Inl x \<Rightarrow> (s, Some x)
      | Inr b \<Rightarrow>
          if fst k \<noteq> c_outputCtx clo
          then (s\<lparr>nodes := Suc (nodes s)\<rparr>, Some (Exn ''InvalidAccessError''))
          else (s\<lparr>nodes := Suc (nodes s),
                  effects := effects s @ [SourceStart (fst k) (nodes s) b (nextStartTimeRef s)],
                  nextStartTimeRef := nextStartTimeRef s + duration b,
                  sourcesRef := insert (nodes s) (sourcesRef s)\<rparr>, None))"
  by (simp add: onmessage_resume_def emit_def Let_def split: sum.splits)


subsection \<open>Messages that the handler ignores\<close>

text \<open>
  Claim C10. A message without an inline audio payload (no payload at all, or the empty
  string, which line 110 takes for none), and any message that arrives while
  \<open>outputContextRef\<close> is null, leaves the whole state as it was: the handler returns at
  once, nothing waits for a decode, nothing is scheduled, the cursor and the set of
  playing sources are unchanged.
\<close>

theorem onmessage_ignores:
  "audioData msg = None \<or> audioData msg = Some [] \<or> outputContextRef s = None
     \<Longrightarrow> onmessage clo msg s = (s, None)
         \<and> step decode enc clo (Message msg) (s, ps) = (s, ps)"
  by (auto simp: onmessage_def split: option.splits)

theorem onmessage_ignores_witness:
  "audioData \<lparr>serverContent = None\<rparr> = None
   \<and> onmessage clo0 \<lparr>serverContent = None\<rparr> active0 = (active0, None)
   \<and> outputContextRef stopped0 = None
   \<and> onmessage clo0 (audioMessage ''A'') stopped0 = (stopped0, None)"
proof -
  have a: "audioData \<lparr>serverContent = None\<rparr> = None"
    by (simp add: audioData_def)
  have b: "outputContextRef stopped0 = None"
    by (simp add: stopped0_def stop_active0)
  show ?thesis
    using a b onmessage_ignores [of "\<lparr>serverContent = None\<rparr>" active0 clo0]
      onmessage_ignores [of "audioMessage ''A''" stopped0 clo0]
    by simp
qed

subsection \<open>Two chunks back to back\<close>




subsection \<open>A transport error\<close>

text \<open>
  Claim C2 asks that an \<open>error\<close> event of the remote transport stops the microphone
  tracks and closes both contexts before the error is shown. The handler of lines
  143-147 logs, sets the error text and clears \<open>isActive\<close>; it does not call \<open>cleanup\<close>.
  Every handle is kept and no release call is made: in the concrete session the stream 3
  and the contexts 1 and 2 stay held after the error.
\<close>

theorem onerror_keeps_resources:
  "streamRef (onerror clo s) = streamRef s
   \<and> inputContextRef (onerror clo s) = inputContextRef s
   \<and> outputContextRef (onerror clo s) = outputContextRef s
   \<and> scriptProcessorRef (onerror clo s) = scriptProcessorRef s
   \<and> effects (onerror clo s) = effects s @ [ConsoleError]
   \<and> error (onerror clo s) = Some ''Connection error occurred''
   \<and> streamRef (onerror clo0 active0) = Some 3
   \<and> inputContextRef (onerror clo0 active0) = Some 1
   \<and> outputContextRef (onerror clo0 active0) = Some 2
   \<and> filter released (effects (onerror clo0 active0)) = []
   \<and> \<not> isActive (onerror clo0 active0)"
  by (simp add: onerror_def emit_def active0_eq)

subsection \<open>The cursor at a session start\<close>

text \<open>
  Claim C9. Whenever \<open>toggleSession\<close> gets as far as asking for the microphone, it has
  set the cursor to 0 and has made exactly three platform calls, none of which opens the
  remote connection; \<open>toggleSession\<close> itself never reaches \<open>connect\<close>. The connection is
  opened by the continuation that runs once the microphone is granted, and that
  continuation leaves the cursor alone. The reset makes the cursor fall from one session
  to the next: after a 0.5 s chunk was scheduled, a stop and a new start bring the cursor
  from 0.5 back to 0.
\<close>

theorem cursor_reset_on_start:
  "(toggleSession thr env s = (s1, AwaitUserMedia a ic oc) \<longrightarrow>
      nextStartTimeRef s1 = 0
      \<and> effects s1 = effects s @ [NewAudioContext ic 16000, NewAudioContext oc 24000, GetUserMedia])
   \<and> (\<forall>c. snd (toggleSession thr env s) \<noteq> Connected c)
   \<and> (toggleSession_resume thr a ic oc (Inr m) p s1 = (s2, r) \<longrightarrow>
        effects s2 = effects s1 @ [LiveConnect p]
        \<and> nextStartTimeRef s2 = nextStartTimeRef s1
        \<and> (\<exists>c. r = Connected c))
   \<and> nextStartTimeRef played0 = 1 / 2
   \<and> nextStartTimeRef restarting0 = 0"
proof -
  have general:
    "(toggleSession thr env s = (s1, AwaitUserMedia a ic oc) \<longrightarrow>
      nextStartTimeRef s1 = 0
      \<and> effects s1 = effects s @ [NewAudioContext ic 16000, NewAudioContext oc 24000, GetUserMedia])
     \<and> (\<forall>c. snd (toggleSession thr env s) \<noteq> Connected c)
     \<and> (toggleSession_resume thr a ic oc (Inr m) p s1 = (s2, r) \<longrightarrow>
        effects s2 = effects s1 @ [LiveConnect p]
        \<and> nextStartTimeRef s2 = nextStartTimeRef s1
        \<and> (\<exists>c. r = Connected c))"
    by (auto simp: toggleSession_def toggleSession_resume_def catch_start_def finish_def
          emit_def Let_def
        split: if_splits sum.splits prod.splits option.splits)
  have played: "played0 = active0\<lparr>nodes := 1,
      effects := effects active0 @ [SourceStart 2 0 \<lparr>buf_length = 12000, buf_sampleRate = 24000\<rparr> 0],
      nextStartTimeRef := 1 / 2, sourcesRef := {0}\<rparr>"
    by (simp add: played0_def active0_eq onmessage_def audioData_audioMessage
          onmessage_resume_cases decode0_A duration_A clo0_def)
  have "nextStartTimeRef played0 = 1 / 2"
    by (simp add: played)
  moreover have "nextStartTimeRef restarting0 = 0"
    by (simp add: restarting0_def played active0_eq toggleSession_def cleanup_def andThen_def
          call_def noThrow_def emit_def finish_def env1_def truthy_def)
  ultimately show ?thesis
    using general by blast
qed

theorem cursor_reset_on_start_witness:
  "toggleSession noThrow env0 initial = (connecting0, AwaitUserMedia False 1 2)
   \<and> nextStartTimeRef connecting0 = 0
   \<and> effects connecting0 = effects initial @ [NewAudioContext 1 16000, NewAudioContext 2 24000, GetUserMedia]
   \<and> toggleSession_resume noThrow False 1 2 (Inr 3) 4 connecting0 = (connected0, Connected clo0)
   \<and> effects connected0 = effects connecting0 @ [LiveConnect 4]
   \<and> nextStartTimeRef connected0 = nextStartTimeRef connecting0"
proof -
  have a: "toggleSession noThrow env0 initial = (connecting0, AwaitUserMedia False 1 2)"
    by (simp only: connecting0_def connecting0_eq fst_conv)
  have b: "toggleSession_resume noThrow False 1 2 (Inr 3) 4 connecting0 = (connected0, Connected clo0)"
    by (simp only: connected0_def connected0_eq fst_conv)
  from a b cursor_reset_on_start
    [of noThrow env0 initial connecting0 False 1 2 3 4 connected0 "Connected clo0"]
  show ?thesis by blast
qed

subsection \<open>Teardown\<close>

lemma cleanup_complete:
  "cleanup thr s = (s', None) \<Longrightarrow>
     s' = s\<lparr>scriptProcessorRef := None, streamRef := None, inputContextRef := None,
            outputContextRef := None, sessionPromiseRef := None,
            effects := effects s @ held s\<rparr>"
  by (auto simp: cleanup_def andThen_def call_def emit_def held_def split: option.splits)

lemma cleanup_no_throw:
  "\<forall>e\<in>set (held s). thr e = None \<Longrightarrow> snd (cleanup thr s) = None"
  by (auto simp: cleanup_def andThen_def call_def emit_def held_def split: option.splits)

lemma cleanup_effects:
  "\<exists>rel. effects (fst (cleanup thr s)) = effects s @ rel \<and> prefix rel (held s)"
  by (auto simp: cleanup_def andThen_def call_def emit_def held_def split: option.splits)

lemma cleanup_other:
  "isActive (fst (cleanup thr s)) = isActive s \<and> status (fst (cleanup thr s)) = status s
   \<and> nextStartTimeRef (fst (cleanup thr s)) = nextStartTimeRef s"
  by (auto simp: cleanup_def andThen_def call_def emit_def split: option.splits)

lemma cleanup_again:
  assumes "cleanup thr s = (s', None)"
  shows "cleanup thr' s' = (s', None)"
proof -
  have "scriptProcessorRef s' = None" "streamRef s' = None" "inputContextRef s' = None"
    "outputContextRef s' = None" "sessionPromiseRef s' = None"
    using cleanup_complete [OF assms] by simp_all
  then show ?thesis
    by (simp add: cleanup_def andThen_def)
qed

lemma released_held: "list_all released (held s)"
  by (simp add: held_def split: option.splits)

text \<open>
  Claim C6 says that a failure while releasing one resource does not keep the others
  from being released. \<open>cleanup\<close> has no \<open>try\<close>: when \<open>disconnect()\<close> of the capture node
  throws in the active session, the exception leaves \<open>cleanup\<close> at line 27 with nothing
  released, the stream and both contexts still held.
\<close>

theorem cleanup_throw_counterexample:
  "cleanup throwDisconnect active0 = (active0, Some (Exn ''disconnect failed''))
   \<and> streamRef active0 = Some 3
   \<and> inputContextRef active0 = Some 1
   \<and> outputContextRef active0 = Some 2"
  by (simp add: cleanup_def andThen_def call_def throwDisconnect_def active0_eq)

text \<open>
  Claim C6, amended. When none of the release calls owed for the held handles throws,
  \<open>cleanup\<close> makes exactly these calls, in the order capture node, microphone tracks,
  input context, output context, clears the five handles and changes nothing else. After
  a teardown that completed, a second teardown completes too and leaves the state as it
  is, whatever the platform would throw.
\<close>

theorem cleanup_releases_and_idempotent:
  "((\<forall>e\<in>set (held s). thr e = None) \<longrightarrow>
      cleanup thr s =
        (s\<lparr>scriptProcessorRef := None, streamRef := None, inputContextRef := None,
           outputContextRef := None, sessionPromiseRef := None,
           effects := effects s @ held s\<rparr>, None))
   \<and> (cleanup thr s = (s', None) \<longrightarrow> cleanup thr' s' = (s', None))"
proof -
  have "cleanup thr s =
        (s\<lparr>scriptProcessorRef := None, streamRef := None, inputContextRef := None,
           outputContextRef := None, sessionPromiseRef := None,
           effects := effects s @ held s\<rparr>, None)"
    if h: "\<forall>e\<in>set (held s). thr e = None"
  proof -
    obtain t where t: "cleanup thr s = (t, None)"
      using cleanup_no_throw [OF h] by (cases "cleanup thr s") simp
    from cleanup_complete [OF t] t show ?thesis by simp
  qed
  then show ?thesis
    using cleanup_again by blast
qed

theorem cleanup_releases_and_idempotent_witness:
  "list_all (\<lambda>e. noThrow e = None) (held active0)
   \<and> held active0 = [ProcessorDisconnect 5, TrackStop 3, ContextClose 1, ContextClose 2]
   \<and> cleanup noThrow active0 =
       (active0\<lparr>scriptProcessorRef := None, streamRef := None, inputContextRef := None,
          outputContextRef := None, sessionPromiseRef := None,
          effects := effects active0 @ held active0\<rparr>, None)
   \<and> cleanup throwDisconnect (fst (cleanup noThrow active0)) = (fst (cleanup noThrow active0), None)"
proof -
  have h: "\<forall>e\<in>set (held active0). noThrow e = None"
    by (simp add: noThrow_def)
  have l: "held active0 = [ProcessorDisconnect 5, TrackStop 3, ContextClose 1, ContextClose 2]"
    by (simp add: held_def active0_eq)
  from cleanup_releases_and_idempotent [of active0 noThrow] h
  have c: "cleanup noThrow active0 =
       (active0\<lparr>scriptProcessorRef := None, streamRef := None, inputContextRef := None,
          outputContextRef := None, sessionPromiseRef := None,
          effects := effects active0 @ held active0\<rparr>, None)"
    by blast
  from cleanup_releases_and_idempotent
    [of active0 noThrow "fst (cleanup noThrow active0)" throwDisconnect] c
  have "cleanup throwDisconnect (fst (cleanup noThrow active0)) = (fst (cleanup noThrow active0), None)"
    by simp
  moreover have "list_all (\<lambda>e. noThrow e = None) (held active0)"
    by (simp add: noThrow_def list_all_iff)
  ultimately show ?thesis
    using l c by blast
qed

subsection \<open>The toggle during a session\<close>

text \<open>
  Claim C7 says that at most one session exists at a time and that a start during a
  session is rejected and leaves the session untouched. The only entry point is the
  toggle, and while \<open>isActive\<close> holds it is the stop: in the active session it clears
  \<open>isActive\<close>, stops the microphone tracks and closes both contexts. And a second session
  can come to exist beside the first: after a transport error \<open>isActive\<close> is false while
  every resource of the session is still held, so the toggle starts anew; no release call
  is ever made, both connections have been opened, and a frame from the first session's
  capture node is still sent to the first session.
\<close>

theorem toggle_active_counterexample:
  "isActive active0
   \<and> \<not> isActive (fst (toggleSession noThrow env1 active0))
   \<and> streamRef active0 = Some 3
   \<and> streamRef (fst (toggleSession noThrow env1 active0)) = None
   \<and> effects (fst (toggleSession noThrow env1 active0)) =
       effects active0 @ [ProcessorDisconnect 5, TrackStop 3, ContextClose 1, ContextClose 2]
   \<and> \<not> isActive errored0
   \<and> streamRef errored0 = Some 3
   \<and> snd (toggleSession noThrow env1 errored0) = AwaitUserMedia False 6 7
   \<and> effects second0 =
       [NewAudioContext 1 16000, NewAudioContext 2 24000, GetUserMedia, LiveConnect 4,
        CreateScriptProcessor 1 5 4096, ConsoleError,
        NewAudioContext 6 16000, NewAudioContext 7 24000, GetUserMedia, LiveConnect 9]
   \<and> filter released (effects second0) = []
   \<and> sent 4 (effects (session_then 4 (onaudioprocess enc0 clo0 frame0 second0))) = [enc0 frame0]"
proof -
  have a: "isActive active0
   \<and> \<not> isActive (fst (toggleSession noThrow env1 active0))
   \<and> streamRef active0 = Some 3
   \<and> streamRef (fst (toggleSession noThrow env1 active0)) = None
   \<and> effects (fst (toggleSession noThrow env1 active0)) =
       effects active0 @ [ProcessorDisconnect 5, TrackStop 3, ContextClose 1, ContextClose 2]"
    by (simp add: stop_active0) (simp add: active0_eq)
  have e: "errored0 = active0\<lparr>effects := effects active0 @ [ConsoleError],
      error := Some ''Connection error occurred'', isActive := False\<rparr>"
    by (simp add: errored0_def onerror_def emit_def)
  have b: "\<not> isActive errored0" "streamRef errored0 = Some 3"
    by (simp_all add: e active0_eq)
  have c: "toggleSession noThrow env1 errored0 =
      (active0\<lparr>effects := effects active0 @ [ConsoleError, NewAudioContext 6 16000,
                   NewAudioContext 7 24000, GetUserMedia],
         error := None, isActive := True, status := ''Connecting...'',
         inputContextRef := Some 6, outputContextRef := Some 7, currentTime := 0,
         nextStartTimeRef := 0\<rparr>, AwaitUserMedia False 6 7)"
    by (simp add: e active0_eq toggleSession_def env1_def truthy_def emit_def)
  have d: "second0 = active0\<lparr>effects := effects active0 @ [ConsoleError, NewAudioContext 6 16000,
                   NewAudioContext 7 24000, GetUserMedia, LiveConnect 9],
         error := None, isActive := True, status := ''Connecting...'',
         inputContextRef := Some 6, outputContextRef := Some 7, currentTime := 0,
         nextStartTimeRef := 0, streamRef := Some 8, sessionPromiseRef := Some 9\<rparr>"
    by (simp add: second0_def c toggleSession_resume_def emit_def)
  have f: "effects second0 =
       [NewAudioContext 1 16000, NewAudioContext 2 24000, GetUserMedia, LiveConnect 4,
        CreateScriptProcessor 1 5 4096, ConsoleError,
        NewAudioContext 6 16000, NewAudioContext 7 24000, GetUserMedia, LiveConnect 9]"
    by (simp add: d) (simp add: active0_eq)
  have g: "filter released (effects second0) = []"
    by (simp add: f)
  have h: "sent 4 (effects (session_then 4 (onaudioprocess enc0 clo0 frame0 second0))) = [enc0 frame0]"
    by (simp add: onaudioprocess_def session_then_def clo0_def f) (simp add: d active0_eq)
  from a b c f g h show ?thesis
    by simp
qed

text \<open>
  Claim C7, amended. The toggle is a start only when \<open>isActive\<close> is false. While
  \<open>isActive\<close> holds, a call of the toggle never starts a second session: its outcome does
  not depend on the environment a start would use, it does not suspend for a microphone
  and connects nothing, and every platform call it makes is one of the release calls
  owed for the handles held, in their order. The call is the stop: it clears \<open>isActive\<close>
  and sets the status to Disconnected, and when none of the owed release calls throws it
  makes all of them, clears the five handles and returns.
\<close>

theorem toggle_while_active:
  assumes "isActive s"
  shows "toggleSession thr env s = toggleSession thr env' s
     \<and> (\<forall>a ic oc. snd (toggleSession thr env s) \<noteq> AwaitUserMedia a ic oc)
     \<and> (\<forall>c. snd (toggleSession thr env s) \<noteq> Connected c)
     \<and> (\<exists>rel. effects (fst (toggleSession thr env s)) = effects s @ rel
           \<and> prefix rel (held s) \<and> list_all released rel)
     \<and> \<not> isActive (fst (toggleSession thr env s))
     \<and> status (fst (toggleSession thr env s)) = ''Disconnected''
     \<and> ((\<forall>e\<in>set (held s). thr e = None) \<longrightarrow>
          toggleSession thr env s =
            (s\<lparr>isActive := False, status := ''Disconnected'',
               scriptProcessorRef := None, streamRef := None, inputContextRef := None,
               outputContextRef := None, sessionPromiseRef := None,
               effects := effects s @ held s\<rparr>, Returned))"
proof -
  let ?s1 = "s\<lparr>isActive := False, status := ''Disconnected''\<rparr>"
  have t: "toggleSession thr env s = finish (cleanup thr ?s1)" for env
    using assms by (simp add: toggleSession_def)
  have f: "fst (finish r) = fst r" "\<And>a ic oc. snd (finish r) \<noteq> AwaitUserMedia a ic oc"
    "\<And>c. snd (finish r) \<noteq> Connected c" for r
    by (auto simp: finish_def split: prod.splits option.splits)
  have hs: "held ?s1 = held s" "effects ?s1 = effects s"
    by (simp_all add: held_def)
  obtain rel where rel: "effects (fst (cleanup thr ?s1)) = effects s @ rel" "prefix rel (held s)"
    using cleanup_effects [of thr ?s1] hs by auto
  have "list_all released rel"
    using rel(2) released_held [of s] by (auto simp: prefix_def)
  moreover have "toggleSession thr env s =
            (s\<lparr>isActive := False, status := ''Disconnected'',
               scriptProcessorRef := None, streamRef := None, inputContextRef := None,
               outputContextRef := None, sessionPromiseRef := None,
               effects := effects s @ held s\<rparr>, Returned)"
    if h: "\<forall>e\<in>set (held s). thr e = None"
  proof -
    obtain u where u: "cleanup thr ?s1 = (u, None)"
      using cleanup_no_throw [of ?s1 thr] h hs by (cases "cleanup thr ?s1") simp
    from cleanup_complete [OF u] u hs show ?thesis
      by (simp add: t finish_def)
  qed
  ultimately show ?thesis
    using rel cleanup_other [of thr ?s1] by (simp add: t f)
qed

theorem toggle_while_active_witness:
  "isActive active0
   \<and> list_all (\<lambda>e. noThrow e = None) (held active0)
   \<and> toggleSession noThrow env0 active0 = toggleSession noThrow env1 active0
   \<and> toggleSession noThrow env0 active0 =
         (active0\<lparr>isActive := False, status := ''Disconnected'',
            scriptProcessorRef := None, streamRef := None, inputContextRef := None,
            outputContextRef := None, sessionPromiseRef := None,
            effects := effects active0 @ held active0\<rparr>, Returned)
   \<and> \<not> isActive (fst (toggleSession noThrow env0 active0))"
proof -
  have a: "isActive active0"
    by (simp add: active0_eq)
  have h: "\<forall>e\<in>set (held active0). noThrow e = None"
    by (simp add: noThrow_def)
  have h': "list_all (\<lambda>e. noThrow e = None) (held active0)"
    by (simp add: noThrow_def list_all_iff)
  from a h h' toggle_while_active [OF a, of noThrow env0 env1] show ?thesis
    by metis
qed

subsection \<open>Callbacks that run after a stop\<close>

lemma enc0_frame0:
  "enc0 frame0 = \<lparr> data = Some (replicate 4096 CHR ''+''), mimeType = Some ''audio/pcm;rate=16000'' \<rparr>"
  by (simp add: enc0_def frame0_def)

text \<open>
  Claim C3 asks that nothing is sent and nothing is scheduled once a stop issued during
  the active session has returned, whatever callbacks were in flight. \<open>onaudioprocess\<close>
  tests nothing and sends through the \<open>sessionPromise\<close> it closed over, which \<open>cleanup\<close>
  does not reach; the part of \<open>onmessage\<close> after the decode tests nothing either. So a
  capture callback that runs after the stop still sends its frame, and a handler that
  was waiting for its decode when the stop came still starts its buffer, on the context
  that the stop has closed.
\<close>

theorem late_callbacks_after_stop:
  "toggleSession noThrow env1 active0 = (stopped0, Returned)
   \<and> sent 4 (effects stopped0) = []
   \<and> sent 4 (effects lateFrame0) = [enc0 frame0]
   \<and> snd suspended0 = Some (2, ''A'')
   \<and> snd (toggleSession noThrow env1 (fst suspended0)) = Returned
   \<and> effects lateChunk0 =
       [NewAudioContext 1 16000, NewAudioContext 2 24000, GetUserMedia, LiveConnect 4,
        CreateScriptProcessor 1 5 4096,
        ProcessorDisconnect 5, TrackStop 3, ContextClose 1, ContextClose 2,
        SourceStart 2 0 \<lparr>buf_length = 12000, buf_sampleRate = 24000\<rparr> 0]
   \<and> nextStartTimeRef lateChunk0 = 1 / 2
   \<and> sourcesRef lateChunk0 = {0}"
proof -
  have st: "toggleSession noThrow env1 active0 = (stopped0, Returned)"
    by (simp add: stopped0_def stop_active0)
  have s0: "sent 4 (effects stopped0) = []"
    by (simp add: stopped0_def stop_active0)
  have s1: "sent 4 (effects lateFrame0) = [enc0 frame0]"
    by (simp add: lateFrame0_def stopped0_def stop_active0 onaudioprocess_def session_then_def
          clo0_def)
  have su: "suspended0 = (active0, Some (2, ''A''))"
    by (simp add: suspended0_def onmessage_def audioData_audioMessage active0_eq)
  have st2: "snd (toggleSession noThrow env1 (fst suspended0)) = Returned"
    by (simp add: su stop_active0)
  have lc: "lateChunk0 = stopped0\<lparr>nodes := 1,
      effects := effects stopped0 @ [SourceStart 2 0 \<lparr>buf_length = 12000, buf_sampleRate = 24000\<rparr> 0],
      nextStartTimeRef := 1 / 2, sourcesRef := {0}\<rparr>"
    by (simp add: lateChunk0_def su stopped0_def stop_active0 onmessage_resume_cases decode0_A
          duration_A clo0_def)
  have "effects lateChunk0 =
       [NewAudioContext 1 16000, NewAudioContext 2 24000, GetUserMedia, LiveConnect 4,
        CreateScriptProcessor 1 5 4096,
        ProcessorDisconnect 5, TrackStop 3, ContextClose 1, ContextClose 2,
        SourceStart 2 0 \<lparr>buf_length = 12000, buf_sampleRate = 24000\<rparr> 0]"
    "nextStartTimeRef lateChunk0 = 1 / 2" "sourcesRef lateChunk0 = {0}"
    by (simp_all add: lc) (simp_all add: stopped0_def stop_active0)
  moreover have "snd suspended0 = Some (2, ''A'')"
    by (simp add: su)
  ultimately show ?thesis
    using st s0 s1 st2 by blast
qed

subsection \<open>Captured frames reach the session in order\<close>

lemma sent_append: "sent p (xs @ ys) = sent p xs @ sent p ys"
  by (induction p xs rule: sent.induct) simp_all

lemma sent_sends: "sent p (map (\<lambda>r. SendRealtimeInput p (snd r)) rs) = map snd rs"
  by (induction rs) simp_all

lemma run_append:
  "run decode enc clo (es @ fs) c = run decode enc clo fs (run decode enc clo es c)"
  by (induction es arbitrary: c) simp_all

lemma step_outbound:
  "step decode enc clo e (s, ps) = (s', ps') \<Longrightarrow>
   outbound (c_sessionPromise clo) s' =
     outbound (c_sessionPromise clo) s @ map enc (frames [e])"
  by (cases e)
     (auto simp: outbound_def onmessage_def onmessage_resume_cases advanceTime_def
        source_ended_def onaudioprocess_def session_then_def onclose_def onerror_def emit_def
        sent_append sent_sends
      split: option.splits if_splits sum.splits)

lemma frames_append: "frames (es @ fs) = frames es @ frames fs"
  by (induction es rule: frames.induct) simp_all

lemma run_outbound:
  "run decode enc clo es (s, ps) = (s', ps') \<Longrightarrow>
   outbound (c_sessionPromise clo) s' = outbound (c_sessionPromise clo) s @ map enc (frames es)"
proof (induction es arbitrary: s ps)
  case Nil
  then show ?case by simp
next
  case (Cons e es)
  obtain s1 ps1 where s1: "step decode enc clo e (s, ps) = (s1, ps1)"
    by (cases "step decode enc clo e (s, ps)")
  with Cons.prems have "run decode enc clo es (s1, ps1) = (s', ps')"
    by simp
  from Cons.IH [OF this] step_outbound [OF s1] show ?case
    using frames_append [of "[e]" es] by simp
qed

lemma sent_after_then:
  "sent p (effects (session_then p s)) = outbound p s"
  by (simp add: session_then_def outbound_def sent_append sent_sends)

lemma frames_sent_in_order:
  "sent (c_sessionPromise clo) (effects (fst (run decode enc clo (es @ [SessionThen]) (s, ps)))) =
     outbound (c_sessionPromise clo) s @ map enc (frames es)"
proof -
  obtain s' ps' where r: "run decode enc clo es (s, ps) = (s', ps')"
    by (cases "run decode enc clo es (s, ps)")
  from run_outbound [OF r] r show ?thesis
    by (simp add: run_append sent_after_then)
qed

text \<open>
  Claim C8. A session is started from the initial state, the microphone is granted, the
  remote reports \<open>opened\<close> (the capture node is created for frames of 4096 samples on the
  16 kHz input context), and the capture node delivers three frames of 4096 samples,
  whatever other session events come in between. Once the session promise is fulfilled
  and its reactions have run, the payloads handed to the session are exactly the
  encodings of the three frames, in capture order; each frame reaches the encoder whole,
  so under any encoder that keeps the number of samples each payload has 4096 of them.
  The encoder \<open>createPcmBlob\<close> is a parameter.
\<close>

theorem three_frames_arrive:
  assumes "toggleSession thr env initial = (s1, AwaitUserMedia a ic oc)"
    and "toggleSession_resume thr a ic oc (Inr m) p s1 = (s2, Connected clo)"
    and "frames es = [f1, f2, f3]"
    and "length f1 = 4096" and "length f2 = 4096" and "length f3 = 4096"
  shows "sent p (effects (fst (run decode enc clo (es @ [SessionThen]) (onopen clo proc s2, [])))) =
           [enc f1, enc f2, enc f3]
     \<and> (\<forall>len. (\<forall>f. len (enc f) = length f) \<longrightarrow>
           map len (sent p (effects (fst (run decode enc clo (es @ [SessionThen])
                                            (onopen clo proc s2, []))))) = [4096, 4096, 4096])
     \<and> effects (onopen clo proc s2) =
         [NewAudioContext ic 16000, NewAudioContext oc 24000, GetUserMedia, LiveConnect p,
          CreateScriptProcessor ic proc 4096]"
proof -
  from assms(1) have s1: "effects s1 = [NewAudioContext ic 16000, NewAudioContext oc 24000, GetUserMedia]"
    "thens s1 = []"
    by (auto simp: toggleSession_def initial_def catch_start_def finish_def emit_def Let_def
        split: if_splits sum.splits prod.splits option.splits)
  from assms(2) have s2: "effects s2 = effects s1 @ [LiveConnect p]" "thens s2 = thens s1"
    "c_sessionPromise clo = p" "c_inputCtx clo = ic"
    by (auto simp: toggleSession_resume_def emit_def)
  have o: "effects (onopen clo proc s2) =
         [NewAudioContext ic 16000, NewAudioContext oc 24000, GetUserMedia, LiveConnect p,
          CreateScriptProcessor ic proc 4096]" "thens (onopen clo proc s2) = []"
    by (simp_all add: onopen_def emit_def s1 s2)
  have "outbound p (onopen clo proc s2) = []"
    by (simp add: outbound_def o)
  with frames_sent_in_order [of clo decode enc es "onopen clo proc s2" "[]"] assms(3) s2(3)
  have "sent p (effects (fst (run decode enc clo (es @ [SessionThen]) (onopen clo proc s2, [])))) =
           [enc f1, enc f2, enc f3]"
    by simp
  with o assms(4-6) show ?thesis
    by simp
qed

theorem three_frames_arrive_witness:
  "toggleSession noThrow env0 initial = (connecting0, AwaitUserMedia False 1 2)
   \<and> toggleSession_resume noThrow False 1 2 (Inr 3) 4 connecting0 = (connected0, Connected clo0)
   \<and> length frame0 = 4096
   \<and> (\<forall>f. length (the (data (enc0 f))) = length f)
   \<and> sent 4 (effects (fst (run decode0 enc0 clo0
        [AudioProcess frame0, AudioProcess frame0, SessionThen, AudioProcess frame0, SessionThen]
        (active0, [])))) = [enc0 frame0, enc0 frame0, enc0 frame0]
   \<and> map (\<lambda>b. length (the (data b))) (sent 4 (effects (fst (run decode0 enc0 clo0
        [AudioProcess frame0, AudioProcess frame0, SessionThen, AudioProcess frame0, SessionThen]
        (active0, []))))) = [4096, 4096, 4096]"
proof -
  have a: "toggleSession noThrow env0 initial = (connecting0, AwaitUserMedia False 1 2)"
    by (simp only: connecting0_def connecting0_eq fst_conv)
  have b: "toggleSession_resume noThrow False 1 2 (Inr 3) 4 connecting0 = (connected0, Connected clo0)"
    by (simp only: connected0_def connected0_eq fst_conv)
  have l: "length frame0 = 4096"
    by (simp add: frame0_def)
  have e: "\<forall>f. length (the (data (enc0 f))) = length f"
    by (simp add: enc0_def)
  have f: "frames [AudioProcess frame0, AudioProcess frame0, SessionThen, AudioProcess frame0] =
      [frame0, frame0, frame0]"
    by simp
  note t = three_frames_arrive [OF a b f l l l, of decode0 enc0 5]
  from t have t1: "sent 4 (effects (fst (run decode0 enc0 clo0
        ([AudioProcess frame0, AudioProcess frame0, SessionThen, AudioProcess frame0] @ [SessionThen])
        (onopen clo0 5 connected0, [])))) = [enc0 frame0, enc0 frame0, enc0 frame0]"
    by (rule conjunct1)
  from t have "\<forall>len. (\<forall>f. len (enc0 f) = length f) \<longrightarrow>
           map len (sent 4 (effects (fst (run decode0 enc0 clo0
        ([AudioProcess frame0, AudioProcess frame0, SessionThen, AudioProcess frame0] @ [SessionThen])
        (onopen clo0 5 connected0, []))))) = [4096, 4096, 4096]"
    by (rule conjunct2 [THEN conjunct1])
  from this [rule_format, of "\<lambda>b. length (the (data b))"] e
  have t2: "map (\<lambda>b. length (the (data b))) (sent 4 (effects (fst (run decode0 enc0 clo0
        ([AudioProcess frame0, AudioProcess frame0, SessionThen, AudioProcess frame0] @ [SessionThen])
        (onopen clo0 5 connected0, []))))) = [4096, 4096, 4096]"
    by blast
  from t1 t2
  have "sent 4 (effects (fst (run decode0 enc0 clo0
        ([AudioProcess frame0, AudioProcess frame0, SessionThen, AudioProcess frame0] @ [SessionThen])
        (onopen clo0 5 connected0, [])))) = [enc0 frame0, enc0 frame0, enc0 frame0]
     \<and> map (\<lambda>b. length (the (data b))) (sent 4 (effects (fst (run decode0 enc0 clo0
        ([AudioProcess frame0, AudioProcess frame0, SessionThen, AudioProcess frame0] @ [SessionThen])
        (onopen clo0 5 connected0, []))))) = [4096, 4096, 4096]"
    by (rule conjI)
  then have "sent 4 (effects (fst (run decode0 enc0 clo0
        [AudioProcess frame0, AudioProcess frame0, SessionThen, AudioProcess frame0, SessionThen]
        (active0, [])))) = [enc0 frame0, enc0 frame0, enc0 frame0]
     \<and> map (\<lambda>b. length (the (data b))) (sent 4 (effects (fst (run decode0 enc0 clo0
        [AudioProcess frame0, AudioProcess frame0, SessionThen, AudioProcess frame0, SessionThen]
        (active0, []))))) = [4096, 4096, 4096]"
    unfolding active0_def append.simps .
  with a b l e show ?thesis
    by blast
qed

subsection \<open>The cursor and the requested start times within one session\<close>

lemma scheduled_append: "scheduled (xs @ ys) = scheduled xs @ scheduled ys"
  by (induction xs rule: scheduled.induct) simp_all

lemma scheduled_sends: "scheduled (map (\<lambda>r. SendRealtimeInput p (snd r)) rs) = []"
  by (induction rs) simp_all

lemma chained_snoc: "chained c (xs @ [(t, d)]) = (chained c xs \<and> endOf c xs \<le> t)"
  by (induction c xs rule: chained.induct) (auto simp: endOf_def)

lemma step_schedule:
  "step decode enc clo e (s, ps) = (s', ps') \<Longrightarrow>
     nextStartTimeRef s \<le> nextStartTimeRef s'
     \<and> (\<exists>new. effects s' = effects s @ new
          \<and> (scheduled new = [] \<or> (\<exists>b. scheduled new = [(nextStartTimeRef s, duration b)]
                \<and> nextStartTimeRef s' = nextStartTimeRef s + duration b)))"
  by (cases e)
     (auto simp: onmessage_def onmessage_resume_cases advanceTime_def source_ended_def
        onaudioprocess_def session_then_def onclose_def onerror_def emit_def duration_nonneg
        scheduled_append scheduled_sends
      split: option.splits if_splits sum.splits)

lemma run_schedule:
  "run decode enc clo es (s, ps) = (s', ps') \<Longrightarrow>
     nextStartTimeRef s \<le> nextStartTimeRef s'
     \<and> (\<exists>new. effects s' = effects s @ new
          \<and> chained (nextStartTimeRef s) (scheduled new)
          \<and> endOf (nextStartTimeRef s) (scheduled new) \<le> nextStartTimeRef s')"
proof (induction es arbitrary: s' ps' rule: rev_induct)
  case Nil
  then show ?case by (simp add: endOf_def)
next
  case (snoc e es)
  obtain s1 ps1 where r1: "run decode enc clo es (s, ps) = (s1, ps1)"
    by (cases "run decode enc clo es (s, ps)")
  from snoc.prems r1 have st: "step decode enc clo e (s1, ps1) = (s', ps')"
    by (simp add: run_append)
  from snoc.IH [OF r1] obtain new where
    m1: "nextStartTimeRef s \<le> nextStartTimeRef s1" and
    e1: "effects s1 = effects s @ new" and
    c1: "chained (nextStartTimeRef s) (scheduled new)" and
    b1: "endOf (nextStartTimeRef s) (scheduled new) \<le> nextStartTimeRef s1"
    by blast
  from step_schedule [OF st] obtain new' where
    m2: "nextStartTimeRef s1 \<le> nextStartTimeRef s'" and
    e2: "effects s' = effects s1 @ new'" and
    c2: "scheduled new' = [] \<or> (\<exists>b. scheduled new' = [(nextStartTimeRef s1, duration b)]
                \<and> nextStartTimeRef s' = nextStartTimeRef s1 + duration b)"
    by blast
  have eff: "effects s' = effects s @ (new @ new')"
    using e1 e2 by simp
  from c2 have "chained (nextStartTimeRef s) (scheduled (new @ new'))
        \<and> endOf (nextStartTimeRef s) (scheduled (new @ new')) \<le> nextStartTimeRef s'"
  proof
    assume "scheduled new' = []"
    then show ?thesis
      using c1 b1 m2 by (simp add: scheduled_append)
  next
    assume "\<exists>b. scheduled new' = [(nextStartTimeRef s1, duration b)]
                \<and> nextStartTimeRef s' = nextStartTimeRef s1 + duration b"
    then obtain b where "scheduled new' = [(nextStartTimeRef s1, duration b)]"
      "nextStartTimeRef s' = nextStartTimeRef s1 + duration b"
      by blast
    then show ?thesis
      using c1 b1 by (simp add: scheduled_append chained_snoc) (simp add: endOf_def)
  qed
  with eff m1 m2 show ?case
    by (metis order_trans)
qed

lemma beforeSchedule0_eq:
  "beforeSchedule0 = active0\<lparr>currentTime := 1\<rparr>"
  by (simp add: beforeSchedule0_def active0_eq onmessage_def audioData_audioMessage
        advanceTime_def)

lemma afterSchedule0_eq:
  "afterSchedule0 = active0\<lparr>currentTime := 1, nodes := 1,
      effects := effects active0 @ [SourceStart 2 0 \<lparr>buf_length = 12000, buf_sampleRate = 24000\<rparr> 0],
      nextStartTimeRef := 1 / 2, sourcesRef := {0}\<rparr>"
  by (simp add: afterSchedule0_def active0_eq onmessage_def audioData_audioMessage
        advanceTime_def onmessage_resume_cases decode0_A duration_A clo0_def)

text \<open>
  Claim C1 asks that a buffer starts at the maximum of the cursor and the device's
  current time at the moment it is scheduled, so that no two buffers overlap. The
  handler takes that maximum at line 115 (\<open>Sync timing\<close>), before the decode it awaits at
  line 117, and calls \<open>source.start\<close> at line 132 with the cursor as it then is. A chunk
  of 0.5 s arrives at device time 0 with the cursor at 0; the device plays for 1 s while
  the chunk is decoded; the buffer is started with \<open>when = 0\<close>, although the maximum of
  cursor and device time is then 1. The device plays it at once, from 1 to 1.5, while
  the cursor has only moved to 0.5. A chunk of 0.3 s that arrives 0.1 s later is
  requested at 1.1 and plays from 1.1 to 1.4, while the first buffer is still playing.
\<close>

theorem stale_start_overlaps:
  "nextStartTimeRef beforeSchedule0 = 0
   \<and> currentTime beforeSchedule0 = 1
   \<and> effects afterSchedule0 =
       effects beforeSchedule0 @ [SourceStart 2 0 \<lparr>buf_length = 12000, buf_sampleRate = 24000\<rparr> 0]
   \<and> (0 :: real) \<noteq> max (nextStartTimeRef beforeSchedule0) (currentTime beforeSchedule0)
   \<and> nextStartTimeRef afterSchedule0 = 1 / 2
   \<and> scheduled (drop (length (effects active0)) (effects (fst (run decode0 enc0 clo0
         [Message (audioMessage ''A''), Tick 1, Decoded 0, Tick (1 / 10),
          Message (audioMessage ''B''), Decoded 0] (active0, []))))) =
       [(0, 1 / 2), (11 / 10, 3 / 10)]
   \<and> playback decode0 enc0 clo0
         [Message (audioMessage ''A''), Tick 1, Decoded 0, Tick (1 / 10),
          Message (audioMessage ''B''), Decoded 0] (active0, []) =
       [(1, 1 / 2), (11 / 10, 3 / 10)]
   \<and> (11 / 10 :: real) < 1 + 1 / 2"
proof -
  have a: "nextStartTimeRef beforeSchedule0 = 0 \<and> currentTime beforeSchedule0 = 1
   \<and> effects afterSchedule0 =
       effects beforeSchedule0 @ [SourceStart 2 0 \<lparr>buf_length = 12000, buf_sampleRate = 24000\<rparr> 0]
   \<and> (0 :: real) \<noteq> max (nextStartTimeRef beforeSchedule0) (currentTime beforeSchedule0)
   \<and> nextStartTimeRef afterSchedule0 = 1 / 2"
    by (simp add: beforeSchedule0_eq afterSchedule0_eq) (simp add: active0_eq)
  have b: "scheduled (drop (length (effects active0)) (effects (fst (run decode0 enc0 clo0
         [Message (audioMessage ''A''), Tick 1, Decoded 0, Tick (1 / 10),
          Message (audioMessage ''B''), Decoded 0] (active0, []))))) =
       [(0, 1 / 2), (11 / 10, 3 / 10)]"
    by (simp add: onmessage_def audioData_audioMessage onmessage_resume_cases decode0_def
          duration_def advanceTime_def active0_eq clo0_def)
  have c: "playback decode0 enc0 clo0
         [Message (audioMessage ''A''), Tick 1, Decoded 0, Tick (1 / 10),
          Message (audioMessage ''B''), Decoded 0] (active0, []) =
       [(1, 1 / 2), (11 / 10, 3 / 10)]"
    by (simp add: onmessage_def audioData_audioMessage onmessage_resume_cases decode0_def
          duration_def advanceTime_def active0_eq clo0_def)
  from a b c show ?thesis
    by simp
qed

text \<open>
  What the handler does keep, along every sequence of events of one session: the cursor
  never decreases, the effects only grow, every \<open>source.start\<close> is called with the
  cursor's value of that moment and the cursor is then advanced by exactly the buffer's
  duration, so that the requested times form a chain. For a chunk whose handler runs to
  its end without another event in between, the requested time is the maximum of the
  cursor and the device time as read when the handler began, before the decode.
\<close>

lemma cursor_and_requests:
  "nextStartTimeRef (fst (run decode enc clo es c))
     \<le> nextStartTimeRef (fst (run decode enc clo (es @ fs) c))
   \<and> take (length (effects (fst c))) (effects (fst (run decode enc clo es c))) = effects (fst c)
   \<and> chained (nextStartTimeRef (fst c))
        (scheduled (drop (length (effects (fst c))) (effects (fst (run decode enc clo es c)))))
   \<and> (onmessage_resume decode clo k s = (s2, None) \<longrightarrow>
        (\<exists>b. decode (snd k) = Inr b
           \<and> effects s2 = effects s @ [SourceStart (fst k) (nodes s) b (nextStartTimeRef s)]
           \<and> nextStartTimeRef s2 = nextStartTimeRef s + duration b))
   \<and> (onmessage clo m s = (s1, Some k) \<and> onmessage_resume decode clo k s1 = (s2, None) \<longrightarrow>
        (\<exists>b. decode (snd k) = Inr b
           \<and> effects s2 = effects s @ [SourceStart (fst k) (nodes s) b
                                         (max (nextStartTimeRef s) (currentTime s))]
           \<and> nextStartTimeRef s2 = max (nextStartTimeRef s) (currentTime s) + duration b))"
proof -
  obtain s0 ps0 where c: "c = (s0, ps0)"
    by (cases c)
  obtain sa pa where ra: "run decode enc clo es (s0, ps0) = (sa, pa)"
    by (cases "run decode enc clo es (s0, ps0)")
  obtain sb pb where rb: "run decode enc clo fs (sa, pa) = (sb, pb)"
    by (cases "run decode enc clo fs (sa, pa)")
  have mono: "nextStartTimeRef (fst (run decode enc clo es c))
     \<le> nextStartTimeRef (fst (run decode enc clo (es @ fs) c))"
    using run_schedule [OF rb] by (simp add: c run_append ra rb)
  from run_schedule [OF ra] obtain new where
    new: "effects sa = effects s0 @ new" "chained (nextStartTimeRef s0) (scheduled new)"
    by blast
  have grow: "take (length (effects (fst c))) (effects (fst (run decode enc clo es c))) = effects (fst c)"
    by (simp add: c ra new(1))
  have chain: "chained (nextStartTimeRef (fst c))
        (scheduled (drop (length (effects (fst c))) (effects (fst (run decode enc clo es c)))))"
    by (simp add: c ra new)
  have resume: "\<exists>b. decode (snd k) = Inr b
           \<and> effects t' = effects t @ [SourceStart (fst k) (nodes t) b (nextStartTimeRef t)]
           \<and> nextStartTimeRef t' = nextStartTimeRef t + duration b"
    if "onmessage_resume decode clo k t = (t', None)" for t t' k
    using that by (auto simp: onmessage_resume_cases split: sum.splits if_splits)
  have whole: "\<exists>b. decode (snd k) = Inr b
           \<and> effects s2 = effects s @ [SourceStart (fst k) (nodes s) b
                                         (max (nextStartTimeRef s) (currentTime s))]
           \<and> nextStartTimeRef s2 = max (nextStartTimeRef s) (currentTime s) + duration b"
    if a: "onmessage clo m s = (s1, Some k)" and b: "onmessage_resume decode clo k s1 = (s2, None)"
  proof -
    from a have "s1 = s\<lparr>nextStartTimeRef := max (nextStartTimeRef s) (currentTime s)\<rparr>"
      by (auto simp: onmessage_def split: option.splits if_splits)
    with resume [OF b] show ?thesis
      by simp
  qed
  from mono grow chain resume whole show ?thesis
    by blast
qed

subsection \<open>A chunk that does not decode\<close>










end
